theory Spec2Isabelle
  imports Main "HOL-Library.Word"
begin

section \<open>Bridge messages of the go-sdk (types/msg/msg-bridge.go)\<close>

subsection \<open>Go values: bytes, integers, errors, panics, slices\<close>

type_synonym byte = "8 word"
type_synonym int8 = "8 word"
type_synonym int64 = "64 word"

text \<open>
  A Go \<^verbatim>\<open>error\<close> is modelled by its message (\<^verbatim>\<open>fmt.Errorf\<close>); a function that
  returns \<^verbatim>\<open>error\<close> returns \<open>error option\<close>, \<open>None\<close> for \<^verbatim>\<open>nil\<close>.
  A run-time panic is a value of its own: a function that can panic returns
  \<open>panic + 'a\<close>, with \<open>Inl\<close> for the panic.
\<close>

datatype error = Error string

datatype panic = SliceBoundsOutOfRange | PanicError error

text \<open>
  Slice expressions with Go's bounds checks. \<^verbatim>\<open>s[lo:]\<close> needs \<open>0 \<le> lo \<le> len(s)\<close> and
  \<^verbatim>\<open>s[lo:hi]\<close> needs \<open>0 \<le> lo \<le> hi \<le> len(s)\<close> (the length stands for the capacity: no
  slice here is re-sliced beyond its length); otherwise the program panics.
\<close>

definition go_slice_from :: "'a list \<Rightarrow> int \<Rightarrow> panic + 'a list" where
  "go_slice_from s lo =
     (if lo < 0 \<or> int (length s) < lo then Inl SliceBoundsOutOfRange
      else Inr (drop (nat lo) s))"

definition go_slice :: "'a list \<Rightarrow> int \<Rightarrow> int \<Rightarrow> panic + 'a list" where
  "go_slice s lo hi =
     (if lo < 0 \<or> hi < lo \<or> int (length s) < hi then Inl SliceBoundsOutOfRange
      else Inr (take (nat hi - nat lo) (drop (nat lo) s)))"

text \<open>
  The builtin \<^verbatim>\<open>copy(dst, src)\<close> overwrites the first \<open>min (len dst) (len src)\<close>
  elements of \<open>dst\<close>; the model returns \<open>dst\<close> as it is afterwards.
\<close>

definition go_copy :: "'a list \<Rightarrow> 'a list \<Rightarrow> 'a list" where
  "go_copy dst src = take (length dst) src @ drop (length src) dst"

subsection \<open>SmartChainAddress\<close>

text \<open>\<^verbatim>\<open>type SmartChainAddress [20]byte\<close>: an array of exactly 20 bytes.\<close>

typedef SmartChainAddress = "{bs :: byte list. length bs = 20}"
  morphisms addr_bytes mk_addr
  by (rule exI[of _ "replicate 20 0"]) simp

text \<open>The zero value of the array type, as \<^verbatim>\<open>var address SmartChainAddress\<close> declares it.\<close>

definition zero_address :: SmartChainAddress where
  "zero_address = mk_addr (replicate 20 0)"

text \<open>
  \<^verbatim>\<open>
  func (addr *SmartChainAddress) SetBytes(b []byte) {
      if len(b) > len(addr) {
          b = b[len(b)-20:]
      }
      copy(addr[20-len(b):], b)
  }
  \<close>
  The receiver is a pointer: the model takes the address as it is before the call and
  returns it as it is afterwards. \<^verbatim>\<open>addr[20-len(b):]\<close> is a window into the array, so
  the bytes in front of it stay as they were.
\<close>

definition SetBytes :: "SmartChainAddress \<Rightarrow> byte list \<Rightarrow> panic + SmartChainAddress" where
  "SetBytes addr b =
     (case (if 20 < length b then go_slice_from b (int (length b) - 20) else Inr b) of
        Inl p \<Rightarrow> Inl p
      | Inr b' \<Rightarrow>
          (case go_slice_from (addr_bytes addr) (20 - int (length b')) of
             Inl p \<Rightarrow> Inl p
           | Inr dst \<Rightarrow>
               Inr (mk_addr (take (nat (20 - int (length b'))) (addr_bytes addr)
                             @ go_copy dst b'))))"

text \<open>
  \<^verbatim>\<open>
  func (addr SmartChainAddress) IsEmpty() bool {
      addrValue := big.NewInt(0)
      addrValue.SetBytes(addr[:])
      return addrValue.Cmp(big.NewInt(0)) == 0
  }
  \<close>
  \<^verbatim>\<open>big.Int.SetBytes\<close> reads the bytes as a big-endian unsigned integer;
  \<^verbatim>\<open>Cmp\<close> is the three-way comparison.
\<close>

definition big_SetBytes :: "byte list \<Rightarrow> int" where
  "big_SetBytes buf = foldl (\<lambda>z b. z * 256 + uint b) 0 buf"

definition big_Cmp :: "int \<Rightarrow> int \<Rightarrow> int" where
  "big_Cmp x y = (if x < y then - 1 else if x = y then 0 else 1)"

definition IsEmpty :: "SmartChainAddress \<Rightarrow> bool" where
  "IsEmpty addr = (let addrValue = big_SetBytes (addr_bytes addr) in big_Cmp addrValue 0 = 0)"

subsection \<open>The hexadecimal codec\<close>

text \<open>
  Modelled from the spec: \<^verbatim>\<open>HexAddress\<close> and \<^verbatim>\<open>HexDecode\<close> of package msg are called
  by msg-bridge.go and are not among the sources. The spec gives the textual form of an
  address as "lowercase hexadecimal, optionally prefixed", the rendering as "40 lowercase
  hex characters representing the 20 raw bytes", and says that a decoding failure leaves
  the constructed address zero. The sixteen lowercase digits:
\<close>

definition hex_digits :: string where
  "hex_digits = ''0123456789abcdef''"

text \<open>
  Modelled from the spec: \<^verbatim>\<open>HexAddress\<close> (absent from the sources) renders every byte
  as two lowercase hexadecimal digits, high nibble first, with no prefix.
\<close>

definition hex_byte :: "byte \<Rightarrow> string" where
  "hex_byte b = [hex_digits ! (unat b div 16), hex_digits ! (unat b mod 16)]"

definition HexAddress :: "byte list \<Rightarrow> string" where
  "HexAddress a = concat (map hex_byte a)"

text \<open>
  Modelled from the spec: the value of a lowercase hexadecimal digit, for \<^verbatim>\<open>HexDecode\<close>
  (absent from the sources); any other character has none.
\<close>

definition from_hex_char :: "char \<Rightarrow> nat option" where
  "from_hex_char c = map_of (zip hex_digits [0..<16]) c"

text \<open>
  Modelled from the spec: the digit pairs of a hexadecimal text, for \<^verbatim>\<open>HexDecode\<close>
  (absent from the sources). A text of odd length or with a character that is no digit
  does not decode.
\<close>

fun decode_hex :: "string \<Rightarrow> byte list option" where
  "decode_hex [] = Some []"
| "decode_hex [c] = None"
| "decode_hex (c # d # cs) =
     (case (from_hex_char c, from_hex_char d, decode_hex cs) of
        (Some h, Some l, Some bs) \<Rightarrow> Some (of_nat (h * 16 + l) # bs)
      | _ \<Rightarrow> None)"

text \<open>
  Modelled from the spec: \<^verbatim>\<open>HexDecode\<close> (absent from the sources) has Go's result type
  \<^verbatim>\<open>([]byte, error)\<close>. The text is "optionally prefixed" (the prefix \<^verbatim>\<open>0x\<close>); when it
  does not decode the error is set and no bytes are returned, which is what makes the
  constructed address "a zero-value address" on failure.
\<close>

definition HexDecode :: "string \<Rightarrow> byte list \<times> error option" where
  "HexDecode input =
     (case decode_hex (if take 2 input = ''0x'' then drop 2 input else input) of
        Some b \<Rightarrow> (b, None)
      | None \<Rightarrow> ([], Some (Error ''invalid hex string'')))"

subsection \<open>Constructing, printing and (un)marshalling an address\<close>

text \<open>
  \<^verbatim>\<open>
  func NewSmartChainAddress(addr string) SmartChainAddress {
      // we don't want to return error here, ethereum also do the same thing here
      hexBytes, _ := HexDecode(addr)
      var address SmartChainAddress
      address.SetBytes(hexBytes)
      return address
  }
  \<close>
  The error of \<^verbatim>\<open>HexDecode\<close> is dropped; the bytes it returned are used whatever it was.
\<close>

definition NewSmartChainAddress :: "string \<Rightarrow> panic + SmartChainAddress" where
  "NewSmartChainAddress addr =
     (case HexDecode addr of
        (hexBytes, _) \<Rightarrow> SetBytes zero_address hexBytes)"

text \<open>\<^verbatim>\<open>func (addr SmartChainAddress) String() string { return HexAddress(addr[:]) }\<close>\<close>

definition SmartChainAddress_String :: "SmartChainAddress \<Rightarrow> string" where
  "SmartChainAddress_String addr = HexAddress (addr_bytes addr)"

text \<open>
  \<^verbatim>\<open>
  func (addr SmartChainAddress) MarshalJSON() ([]byte, error) {
      return []byte(fmt.Sprintf("\"%v\"", addr.String())), nil
  }
  \<close>
  Text that Go holds as \<^verbatim>\<open>[]byte\<close> is a \<open>string\<close> here as well: the conversions
  \<^verbatim>\<open>[]byte(s)\<close> and \<^verbatim>\<open>string(b)\<close> keep the bytes. \<open>CHR 0x22\<close> is the double quote.
\<close>

definition SmartChainAddress_MarshalJSON :: "SmartChainAddress \<Rightarrow> string \<times> error option" where
  "SmartChainAddress_MarshalJSON addr =
     (CHR 0x22 # SmartChainAddress_String addr @ [CHR 0x22], None)"

text \<open>
  \<^verbatim>\<open>
  func (addr *SmartChainAddress) UnmarshalJSON(input []byte) error {
      hexBytes, err := HexDecode(string(input[1 : len(input)-1]))
      if err != nil {
          return err
      }
      addr.SetBytes(hexBytes)
      return nil
  }
  \<close>
  The result is a panic, or the receiver as the call leaves it together with the
  returned error.
\<close>

definition UnmarshalJSON ::
  "SmartChainAddress \<Rightarrow> string \<Rightarrow> panic + (SmartChainAddress \<times> error option)" where
  "UnmarshalJSON addr input =
     (case go_slice input 1 (int (length input) - 1) of
        Inl p \<Rightarrow> Inl p
      | Inr content \<Rightarrow>
          (case HexDecode content of
             (hexBytes, Some err) \<Rightarrow> Inr (addr, Some err)
           | (hexBytes, None) \<Rightarrow>
               (case SetBytes addr hexBytes of
                  Inl p \<Rightarrow> Inl p
                | Inr addr' \<Rightarrow> Inr (addr', None))))"

subsection \<open>Types of the native chain (package common/types)\<close>

text \<open>
  Modelled from the spec: \<^verbatim>\<open>sdk.AccAddress\<close> (package common/types, not among the
  sources), the account address of the native chain: a sequence of bytes, of which
  \<^verbatim>\<open>len(msg.From)\<close> is the length.
\<close>

type_synonym AccAddress = "byte list"

text \<open>
  Modelled from the spec: \<^verbatim>\<open>sdk.Coin\<close> (package common/types, not among the sources), "a
  native-chain coin amount": a denomination and a signed 64-bit amount.
\<close>

record Coin =
  Denom :: string
  Amount :: int64

text \<open>
  Modelled from the spec: \<^verbatim>\<open>Coin.IsPositive\<close> (package common/types, not among the
  sources) holds when the amount is "strictly positive".
\<close>

definition IsPositive :: "Coin \<Rightarrow> bool" where
  "IsPositive coin = (0 < sint (Coin.Amount coin))"

subsection \<open>Claims\<close>

text \<open>
  \<^verbatim>\<open>
  type TransferInClaim struct {
      ContractAddress   SmartChainAddress   `json:"contract_address"`
      RefundAddresses   []SmartChainAddress `json:"refund_addresses"`
      ReceiverAddresses []sdk.AccAddress    `json:"receiver_addresses"`
      Amounts           []int64             `json:"amounts"`
      Symbol            string              `json:"symbol"`
      RelayFee          sdk.Coin            `json:"relay_fee"`
      ExpireTime        int64               `json:"expire_time"`
  }
  \<close>
  The source declares the type and nothing else: no constructor and no validation.
\<close>

record TransferInClaim =
  ContractAddress :: SmartChainAddress
  RefundAddresses :: "SmartChainAddress list"
  ReceiverAddresses :: "AccAddress list"
  Amounts :: "int64 list"
  Symbol :: string
  RelayFee :: Coin
  ExpireTime :: int64

subsection \<open>Formatting integers\<close>

text \<open>
  The verb \<^verbatim>\<open>%d\<close> of \<^verbatim>\<open>fmt\<close> and the JSON encoding of an integer: decimal digits,
  with a minus sign for a negative number.
\<close>

function FormatUint :: "nat \<Rightarrow> string" where
  "FormatUint n =
     (if n < 10 then [''0123456789'' ! n]
      else FormatUint (n div 10) @ [''0123456789'' ! (n mod 10)])"
  by pat_completeness auto
termination
  by (relation "measure id") auto

declare FormatUint.simps [simp del]

definition FormatInt :: "int \<Rightarrow> string" where
  "FormatInt i = (if i < 0 then CHR ''-'' # FormatUint (nat (- i)) else FormatUint (nat i))"

subsection \<open>BindMsg\<close>

text \<open>
  \<^verbatim>\<open>
  type BindMsg struct {
      From             sdk.AccAddress    `json:"from"`
      Symbol           string            `json:"symbol"`
      Amount           int64             `json:"amount"`
      ContractAddress  SmartChainAddress `json:"contract_address"`
      ContractDecimals int8              `json:"contract_decimals"`
      ExpireTime       int64             `json:"expire_time"`
  }
  \<close>
\<close>

record BindMsg =
  From :: AccAddress
  Symbol :: string
  Amount :: int64
  ContractAddress :: SmartChainAddress
  ContractDecimals :: int8
  ExpireTime :: int64

text \<open>The zero value of the struct: what a composite literal starts from.\<close>

definition BindMsg_zero :: BindMsg where
  "BindMsg_zero =
     \<lparr>BindMsg.From = [], BindMsg.Symbol = [], BindMsg.Amount = 0,
      BindMsg.ContractAddress = zero_address, BindMsg.ContractDecimals = 0,
      BindMsg.ExpireTime = 0\<rparr>"

text \<open>
  \<^verbatim>\<open>
  func NewBindMsg(from sdk.AccAddress, symbol string, amount int64,
          contractAddress SmartChainAddress, contractDecimals int8, expireTime int64) BindMsg {
      return BindMsg{
          From:             from,
          Amount:           amount,
          Symbol:           symbol,
          ContractAddress:  contractAddress,
          ContractDecimals: contractDecimals,
          ExpireTime:       expireTime,
      }
  }
  \<close>
  The literal names the fields in an order of its own (\<^verbatim>\<open>Amount\<close> before
  \<^verbatim>\<open>Symbol\<close>); the model populates them in that order.
\<close>

definition NewBindMsg ::
  "AccAddress \<Rightarrow> string \<Rightarrow> int64 \<Rightarrow> SmartChainAddress \<Rightarrow> int8 \<Rightarrow> int64 \<Rightarrow> BindMsg" where
  "NewBindMsg from symbol amount contractAddress contractDecimals expireTime =
     BindMsg_zero
       \<lparr>BindMsg.From := from,
        BindMsg.Amount := amount,
        BindMsg.Symbol := symbol,
        BindMsg.ContractAddress := contractAddress,
        BindMsg.ContractDecimals := contractDecimals,
        BindMsg.ExpireTime := expireTime\<rparr>"

text \<open>
  \<^verbatim>\<open>
  func (msg BindMsg) ValidateBasic() error {
      if len(msg.From) != sdk.AddrLen {
          return fmt.Errorf("address length should be %d", sdk.AddrLen)
      }
      if len(msg.Symbol) == 0 {
          return fmt.Errorf("symbol should not be empty")
      }
      if msg.Amount <= 0 {
          return fmt.Errorf("amount should be larger than 0")
      }
      if msg.ContractAddress.IsEmpty() {
          return fmt.Errorf("contract address should not be empty")
      }
      if msg.ContractDecimals < 0 {
          return fmt.Errorf("decimal should be no less than 0")
      }
      if msg.ExpireTime <= 0 {
          return fmt.Errorf("expire time should be larger than 0")
      }
      return nil
  }
  \<close>
  The constant \<^verbatim>\<open>sdk.AddrLen\<close> (package common/types) is not among the sources: it is the
  parameter \<open>AddrLen\<close>. The integer fields are signed: \<open>sint\<close> reads them.
\<close>

definition BindMsg_ValidateBasic :: "int \<Rightarrow> BindMsg \<Rightarrow> error option" where
  "BindMsg_ValidateBasic AddrLen msg =
     (if int (length (BindMsg.From msg)) \<noteq> AddrLen then
        Some (Error (''address length should be '' @ FormatInt AddrLen))
      else if length (BindMsg.Symbol msg) = 0 then
        Some (Error ''symbol should not be empty'')
      else if sint (BindMsg.Amount msg) \<le> 0 then
        Some (Error ''amount should be larger than 0'')
      else if IsEmpty (BindMsg.ContractAddress msg) then
        Some (Error ''contract address should not be empty'')
      else if sint (BindMsg.ContractDecimals msg) < 0 then
        Some (Error ''decimal should be no less than 0'')
      else if sint (BindMsg.ExpireTime msg) \<le> 0 then
        Some (Error ''expire time should be larger than 0'')
      else None)"

subsection \<open>TransferOutMsg\<close>

text \<open>
  \<^verbatim>\<open>
  type TransferOutMsg struct {
      From       sdk.AccAddress    `json:"from"`
      To         SmartChainAddress `json:"to"`
      Amount     sdk.Coin          `json:"amount"`
      ExpireTime int64             `json:"expire_time"`
  }
  \<close>
\<close>

record TransferOutMsg =
  From :: AccAddress
  To :: SmartChainAddress
  Amount :: Coin
  ExpireTime :: int64



text \<open>
  \<^verbatim>\<open>
  func (msg TransferOutMsg) ValidateBasic() error {
      if len(msg.From) != sdk.AddrLen {
          return fmt.Errorf("address length should be %d", sdk.AddrLen)
      }
      if msg.To.IsEmpty() {
          return fmt.Errorf("to address should not be empty")
      }
      if !msg.Amount.IsPositive() {
          return fmt.Errorf("amount should be positive")
      }
      if msg.ExpireTime <= 0 {
          return fmt.Errorf("expire time should be larger than 0")
      }
      return nil
  }
  \<close>
\<close>

definition TransferOutMsg_ValidateBasic :: "int \<Rightarrow> TransferOutMsg \<Rightarrow> error option" where
  "TransferOutMsg_ValidateBasic AddrLen msg =
     (if int (length (TransferOutMsg.From msg)) \<noteq> AddrLen then
        Some (Error (''address length should be '' @ FormatInt AddrLen))
      else if IsEmpty (TransferOutMsg.To msg) then
        Some (Error ''to address should not be empty'')
      else if \<not> IsPositive (TransferOutMsg.Amount msg) then
        Some (Error ''amount should be positive'')
      else if sint (TransferOutMsg.ExpireTime msg) \<le> 0 then
        Some (Error ''expire time should be larger than 0'')
      else None)"

subsection \<open>Sign bytes\<close>

text \<open>
  \<^verbatim>\<open>GetSignBytes\<close> calls \<^verbatim>\<open>json.Marshal\<close> of the standard library on the message.
  What \<^verbatim>\<open>encoding/json\<close> does with a struct is written out below: one object, the
  fields in the order of their declaration under the names of their \<^verbatim>\<open>json\<close> tags, an
  integer in decimal, and a value with a \<^verbatim>\<open>MarshalJSON\<close> method through that method.

  Two calls of \<^verbatim>\<open>GetSignBytes\<close> run the same code, but not in the same state of the
  program. So the code that is not written out here and the state are kept apart. The
  code is collected in a record, the same for every call:
  \<^item> \<open>encode_string\<close>: the library's rendering of a Go string as a JSON string literal
    (its quoting and escaping);
  \<^item> \<open>compact\<close>: the library's check and compaction of what a \<^verbatim>\<open>MarshalJSON\<close> method
    returned, an error when that is not JSON;
  \<^item> \<open>marshal_AccAddress\<close> and \<open>marshal_Coin\<close>: \<^verbatim>\<open>json.Marshal\<close> of \<^verbatim>\<open>sdk.AccAddress\<close> and
    of \<^verbatim>\<open>sdk.Coin\<close>, whose declarations (package common/types) are not among the sources.
  The state of the program (its package-level variables) has the type \<open>'w\<close>. Nothing in
  msg-bridge.go reads or writes a variable of package level, and the two library
  functions are functions of their argument. What the methods of \<^verbatim>\<open>sdk.AccAddress\<close> and
  \<^verbatim>\<open>sdk.Coin\<close> do is not known here: they take the state and return it, as any Go
  function may read and change it.
\<close>

record 'w json_codec =
  encode_string :: "string \<Rightarrow> string"
  compact :: "string \<Rightarrow> string \<times> error option"
  marshal_AccAddress :: "AccAddress \<Rightarrow> 'w \<Rightarrow> (string \<times> error option) \<times> 'w"
  marshal_Coin :: "Coin \<Rightarrow> 'w \<Rightarrow> (string \<times> error option) \<times> 'w"


definition marshaler_json ::
  "'w json_codec \<Rightarrow> string \<times> error option \<Rightarrow> string \<times> error option" where
  "marshaler_json env r =
     (case r of
        (b, Some err) \<Rightarrow> ([], Some err)
      | (b, None) \<Rightarrow> compact env b)"

definition json_key :: "string \<Rightarrow> string" where
  "json_key name = CHR 0x22 # name @ [CHR 0x22, CHR '':'']"

text \<open>
  \<^verbatim>\<open>json.Marshal(msg)\<close> for a \<^verbatim>\<open>BindMsg\<close>, called in the state \<open>w\<close>: the result and the
  state afterwards. An error of a field's encoder ends the encoding with that error.
\<close>

definition json_Marshal_BindMsg ::
  "'w json_codec \<Rightarrow> BindMsg \<Rightarrow> 'w \<Rightarrow> (string \<times> error option) \<times> 'w" where
  "json_Marshal_BindMsg env msg w =
     (case marshal_AccAddress env (BindMsg.From msg) w of
        ((_, Some err), w1) \<Rightarrow> (([], Some err), w1)
      | ((from, None), w1) \<Rightarrow>
          (case marshaler_json env (SmartChainAddress_MarshalJSON (BindMsg.ContractAddress msg)) of
             (_, Some err) \<Rightarrow> (([], Some err), w1)
           | (contract_address, None) \<Rightarrow>
               ((''{'' @ json_key ''from'' @ from
                 @ '','' @ json_key ''symbol'' @ encode_string env (BindMsg.Symbol msg)
                 @ '','' @ json_key ''amount'' @ FormatInt (sint (BindMsg.Amount msg))
                 @ '','' @ json_key ''contract_address'' @ contract_address
                 @ '','' @ json_key ''contract_decimals''
                         @ FormatInt (sint (BindMsg.ContractDecimals msg))
                 @ '','' @ json_key ''expire_time'' @ FormatInt (sint (BindMsg.ExpireTime msg))
                 @ ''}'', None), w1)))"

text \<open>
  \<^verbatim>\<open>
  func (msg BindMsg) GetSignBytes() []byte {
      b, err := json.Marshal(msg) // XXX: ensure some canonical form
      if err != nil {
          panic(err)
      }
      return b
  }
  \<close>
  The first component is what the call returns, the bytes or the panic; the second is
  the state it leaves.
\<close>

definition BindMsg_GetSignBytes ::
  "'w json_codec \<Rightarrow> BindMsg \<Rightarrow> 'w \<Rightarrow> (panic + string) \<times> 'w" where
  "BindMsg_GetSignBytes env msg w =
     (case json_Marshal_BindMsg env msg w of
        ((b, Some err), w1) \<Rightarrow> (Inl (PanicError err), w1)
      | ((b, None), w1) \<Rightarrow> (Inr b, w1))"



section \<open>Properties\<close>

subsection \<open>Helper facts\<close>

lemma length_addr_bytes: "length (addr_bytes a) = 20"
  using addr_bytes [of a] by simp

lemma addr_bytes_mk_addr: "length bs = 20 \<Longrightarrow> addr_bytes (mk_addr bs) = bs"
  by (simp add: mk_addr_inverse)

lemma addr_bytes_zero_address: "addr_bytes zero_address = replicate 20 0"
  by (simp add: zero_address_def addr_bytes_mk_addr)

lemma foldl_be_nonneg: "0 \<le> z \<Longrightarrow> 0 \<le> foldl (\<lambda>z b. z * 256 + uint (b :: byte)) z buf"
  by (induction buf arbitrary: z) simp_all

lemma foldl_be_zero_iff:
  "0 \<le> z \<Longrightarrow>
   foldl (\<lambda>z b. z * 256 + uint (b :: byte)) z buf = 0 \<longleftrightarrow> z = 0 \<and> set buf \<subseteq> {0}"
proof (induction buf arbitrary: z)
  case Nil
  then show ?case by simp
next
  case (Cons b buf)
  have nn: "0 \<le> z * 256 + uint b" using Cons.prems by simp
  have "z * 256 + uint b = 0 \<longleftrightarrow> z = 0 \<and> b = 0"
  proof
    assume eq: "z * 256 + uint b = 0"
    have "0 \<le> uint b" by simp
    with eq Cons.prems have "z = 0" "uint b = 0" by arith+
    then show "z = 0 \<and> b = 0" by (simp add: uint_0_iff)
  qed simp
  with Cons.IH [OF nn] show ?case by auto
qed

lemma big_SetBytes_zero_iff: "big_SetBytes buf = 0 \<longleftrightarrow> set buf \<subseteq> {0}"
  by (simp add: big_SetBytes_def foldl_be_zero_iff)

lemma all_zero_replicate: "set buf \<subseteq> {0 :: byte} \<longleftrightarrow> buf = replicate (length buf) 0"
proof
  assume "set buf \<subseteq> {0}"
  then have "\<forall>y\<in>set buf. y = 0" by auto
  then show "buf = replicate (length buf) 0"
    by (simp add: replicate_length_same)
next
  assume "buf = replicate (length buf) 0"
  then have "set buf \<subseteq> set (replicate (length buf) (0 :: byte))" by simp
  then show "set buf \<subseteq> {0}" by (auto simp: in_set_replicate)
qed

lemma IsEmpty_iff_set: "IsEmpty addr \<longleftrightarrow> set (addr_bytes addr) \<subseteq> {0}"
proof -
  have "IsEmpty addr \<longleftrightarrow> big_SetBytes (addr_bytes addr) = 0"
    by (simp add: IsEmpty_def big_Cmp_def)
  also have "\<dots> \<longleftrightarrow> set (addr_bytes addr) \<subseteq> {0}"
    by (rule big_SetBytes_zero_iff)
  finally show ?thesis .
qed

lemma SetBytes_result:
  "SetBytes addr b =
     Inr (mk_addr (if 20 < length b then drop (length b - 20) b
                   else take (20 - length b) (addr_bytes addr) @ b))"
proof (cases "20 < length b")
  case True
  then have "go_slice_from b (int (length b) - 20) = Inr (drop (length b - 20) b)"
    by (simp add: go_slice_from_def nat_diff_distrib')
  with True show ?thesis
    by (simp add: SetBytes_def go_slice_from_def go_copy_def length_addr_bytes)
next
  case False
  then show ?thesis
    by (simp add: SetBytes_def go_slice_from_def go_copy_def length_addr_bytes
        nat_diff_distrib')
qed

subsection \<open>IsEmpty\<close>

text \<open>
  Claim C7. For every SmartChainAddress, \<open>IsEmpty\<close> returns true if and only if all 20
  bytes of the address are zero.
\<close>

theorem IsEmpty_iff_all_zero: "IsEmpty addr \<longleftrightarrow> addr_bytes addr = replicate 20 0"
proof -
  have "IsEmpty addr \<longleftrightarrow> set (addr_bytes addr) \<subseteq> {0}"
    by (rule IsEmpty_iff_set)
  also have "\<dots> \<longleftrightarrow> addr_bytes addr = replicate 20 0"
    using all_zero_replicate [of "addr_bytes addr"] by (simp add: length_addr_bytes)
  finally show ?thesis .
qed

subsection \<open>SetBytes\<close>

lemma SetBytes_bytes:
  "\<exists>a'. SetBytes addr b = Inr a' \<and>
     addr_bytes a' = (if 20 < length b then drop (length b - 20) b
                      else take (20 - length b) (addr_bytes addr) @ b)"
  by (simp add: SetBytes_result addr_bytes_mk_addr length_addr_bytes)

lemma SetBytes_zero_bytes:
  "\<exists>a'. SetBytes zero_address b = Inr a' \<and>
     addr_bytes a' = (if 20 < length b then drop (length b - 20) b
                      else replicate (20 - length b) 0 @ b)"
  by (simp add: SetBytes_result addr_bytes_mk_addr addr_bytes_zero_address)

text \<open>
  Claim C2, as the code has it. \<open>SetBytes\<close> never panics and stores \<open>b\<close> right-aligned
  into the 20-byte address: of a \<open>b\<close> longer than 20 bytes only the trailing 20 bytes are
  kept; a \<open>b\<close> of at most 20 bytes becomes the trailing bytes of the address, and the
  bytes in front of it are those the receiver had before the call. On the zero address,
  the receiver \<open>NewSmartChainAddress\<close> uses, the result is \<open>b\<close> left-padded with zero
  bytes to length 20.
\<close>

theorem SetBytes_right_aligned:
  "(\<exists>a'. SetBytes addr b = Inr a' \<and>
      addr_bytes a' = (if 20 < length b then drop (length b - 20) b
                       else take (20 - length b) (addr_bytes addr) @ b)) \<and>
   (\<exists>a'. SetBytes zero_address b = Inr a' \<and>
      addr_bytes a' = (if 20 < length b then drop (length b - 20) b
                       else replicate (20 - length b) 0 @ b))"
  using SetBytes_bytes SetBytes_zero_bytes by blast

text \<open>
  Claim C2 as stated promises the zero padding for every call. On a receiver that holds
  twenty bytes \<open>0xff\<close>, setting the one byte \<open>0x01\<close> leaves nineteen bytes \<open>0xff\<close> in
  front of it.
\<close>

theorem SetBytes_keeps_leading_bytes:
  "SetBytes (mk_addr (replicate 20 255)) [1] = Inr (mk_addr (replicate 19 255 @ [1])) \<and>
   addr_bytes (mk_addr (replicate 19 255 @ [1])) \<noteq> replicate (20 - length [1 :: byte]) 0 @ [1]"
  by (simp add: SetBytes_result addr_bytes_mk_addr)

theorem SetBytes_right_aligned_witness:
  "\<exists>a'. SetBytes zero_address [1, 2] = Inr a' \<and> addr_bytes a' = replicate 18 0 @ [1, 2]"
  using SetBytes_right_aligned [of zero_address "[1, 2]"] by simp

subsection \<open>The hexadecimal codec\<close>

lemma hex_digit_value: "n < 16 \<Longrightarrow> from_hex_char (hex_digits ! n) = Some n"
proof -
  assume n: "n < 16"
  have d: "distinct hex_digits" by (simp add: hex_digits_def)
  have l: "length hex_digits = length [0..<16]" by (simp add: hex_digits_def)
  from n l have "map_of (zip hex_digits [0..<16]) (hex_digits ! n) = Some ([0..<16] ! n)"
    using d by (intro map_of_zip_nth) simp_all
  with n show ?thesis by (simp add: from_hex_char_def)
qed

lemma hex_digit_not_x: "n < 16 \<Longrightarrow> hex_digits ! n \<noteq> CHR ''x''"
proof -
  assume n: "n < 16"
  then have "n < length hex_digits" by (simp add: hex_digits_def)
  then have "hex_digits ! n \<in> set hex_digits" by (rule nth_mem)
  moreover have "CHR ''x'' \<notin> set hex_digits" by (simp add: hex_digits_def)
  ultimately show ?thesis by auto
qed

lemma byte_nibbles: "of_nat (unat b div 16 * 16 + unat b mod 16) = (b :: byte)"
  by simp

lemma unat_byte_div16: "unat (b :: byte) div 16 < 16"
proof -
  have "unat b < 2 ^ LENGTH(8)" by (rule unsigned_less)
  then have "unat b < 256" by simp
  then show ?thesis by simp
qed

lemma decode_hex_HexAddress: "decode_hex (HexAddress bs) = Some bs"
proof (induction bs)
  case Nil
  then show ?case by (simp add: HexAddress_def)
next
  case (Cons b bs)
  have "HexAddress (b # bs) =
      hex_digits ! (unat b div 16) # hex_digits ! (unat b mod 16) # HexAddress bs"
    by (simp add: HexAddress_def hex_byte_def)
  then show ?case
    using Cons.IH by (simp add: hex_digit_value unat_byte_div16 byte_nibbles)
qed

lemma HexAddress_no_prefix: "take 2 (HexAddress bs) \<noteq> ''0x''"
proof (cases bs)
  case Nil
  then show ?thesis by (simp add: HexAddress_def)
next
  case (Cons b bs')
  have "hex_digits ! (unat b mod 16) \<noteq> CHR ''x''" by (rule hex_digit_not_x) simp
  with Cons show ?thesis by (simp add: HexAddress_def hex_byte_def)
qed

lemma HexDecode_HexAddress: "HexDecode (HexAddress bs) = (bs, None)"
  by (simp add: HexDecode_def HexAddress_no_prefix decode_hex_HexAddress)

lemma length_HexAddress: "length (HexAddress bs) = 2 * length bs"
  by (induction bs) (simp_all add: HexAddress_def hex_byte_def)

lemma set_HexAddress: "set (HexAddress bs) \<subseteq> set hex_digits"
proof -
  have "set (hex_byte b) \<subseteq> set hex_digits" for b
  proof -
    have "hex_digits ! (unat b div 16) \<in> set hex_digits"
      using unat_byte_div16 [of b] by (intro nth_mem) (simp add: hex_digits_def)
    moreover have "hex_digits ! (unat b mod 16) \<in> set hex_digits"
      by (intro nth_mem) (simp add: hex_digits_def)
    ultimately show ?thesis by (simp add: hex_byte_def)
  qed
  then show ?thesis by (auto simp: HexAddress_def)
qed

lemma HexAddress_example: "HexAddress [1, 171, 255] = ''01abff''"
  by (simp add: HexAddress_def hex_byte_def hex_digits_def)

lemma HexDecode_example: "HexDecode ''0x01abff'' = ([1, 171, 255], None)"
  by (simp add: HexDecode_def from_hex_char_def hex_digits_def upt_rec)

lemma HexDecode_example2: "HexDecode ''01abf'' = ([], Some (Error ''invalid hex string''))"
  by (simp add: HexDecode_def from_hex_char_def hex_digits_def upt_rec)

lemma NewSmartChainAddress_String: "NewSmartChainAddress (SmartChainAddress_String addr) = Inr addr"
  by (simp add: NewSmartChainAddress_def SmartChainAddress_String_def HexDecode_HexAddress
      SetBytes_result length_addr_bytes addr_bytes_inverse)

subsection \<open>NewSmartChainAddress\<close>

lemma NewSmartChainAddress_uses_returned_bytes:
  "NewSmartChainAddress addr = SetBytes zero_address (fst (HexDecode addr))"
  by (simp add: NewSmartChainAddress_def split: prod.split)

lemma NewSmartChainAddress_returns: "\<exists>address. NewSmartChainAddress addr = Inr address"
  by (simp add: NewSmartChainAddress_def SetBytes_result split: prod.split)

lemma SetBytes_zero_nil: "SetBytes zero_address [] = Inr zero_address"
  by (simp add: SetBytes_result length_addr_bytes addr_bytes_inverse)

lemma HexDecode_error_no_bytes: "snd (HexDecode input) \<noteq> None \<Longrightarrow> fst (HexDecode input) = []"
  by (cases "decode_hex (if take 2 input = ''0x'' then drop 2 input else input)")
    (simp_all add: HexDecode_def)

lemma NewSmartChainAddress_malformed:
  "snd (HexDecode addr) \<noteq> None \<Longrightarrow> NewSmartChainAddress addr = Inr zero_address"
  using HexDecode_error_no_bytes [of addr]
  by (cases "HexDecode addr") (simp add: NewSmartChainAddress_def SetBytes_zero_nil)

text \<open>
  Claim C3. For every input string, \<open>NewSmartChainAddress\<close> never fails or panics: it
  always returns an address, and on a text that \<open>HexDecode\<close> rejects the returned
  address is the all-zero address.
\<close>

theorem NewSmartChainAddress_never_fails:
  "(\<exists>address. NewSmartChainAddress addr = Inr address) \<and>
   (snd (HexDecode addr) \<noteq> None \<longrightarrow> NewSmartChainAddress addr = Inr zero_address)"
  using NewSmartChainAddress_returns NewSmartChainAddress_malformed by blast

lemma from_hex_char_z: "from_hex_char (CHR ''z'') = None"
  by (simp add: from_hex_char_def hex_digits_def upt_rec)

theorem NewSmartChainAddress_never_fails_witness:
  "snd (HexDecode ''0xzz'') \<noteq> None \<and> NewSmartChainAddress ''0xzz'' = Inr zero_address"
proof -
  have h: "snd (HexDecode ''0xzz'') \<noteq> None"
    by (simp add: HexDecode_def from_hex_char_z)
  with NewSmartChainAddress_never_fails [of "''0xzz''"] show ?thesis by blast
qed

text \<open>
  Claim C6. For every 20-byte address, decoding its hexadecimal rendering and rendering
  the result again yields the same text: \<open>ToHex (FromHex (ToHex addr)) = ToHex addr\<close>.
\<close>

theorem String_roundtrip_stable:
  "\<exists>address. NewSmartChainAddress (SmartChainAddress_String addr) = Inr address \<and>
     SmartChainAddress_String address = SmartChainAddress_String addr"
  by (simp add: NewSmartChainAddress_String)

subsection \<open>MarshalJSON and UnmarshalJSON of an address\<close>

text \<open>
  Claim C8. For every SmartChainAddress, \<open>MarshalJSON\<close> returns no error, and its
  output is the text of \<open>String\<close> between two double quotes: 40 lowercase hexadecimal
  characters.
\<close>

theorem MarshalJSON_quoted_hex:
  "snd (SmartChainAddress_MarshalJSON addr) = None \<and>
   fst (SmartChainAddress_MarshalJSON addr) = CHR 0x22 # SmartChainAddress_String addr @ [CHR 0x22] \<and>
   length (SmartChainAddress_String addr) = 40 \<and>
   set (SmartChainAddress_String addr) \<subseteq> set ''0123456789abcdef''"
  using set_HexAddress [of "addr_bytes addr"]
  by (simp add: SmartChainAddress_MarshalJSON_def SmartChainAddress_String_def
      length_HexAddress length_addr_bytes hex_digits_def)

text \<open>
  What \<open>UnmarshalJSON\<close> does, by the length of its input. With fewer than two bytes
  the slice expression \<^verbatim>\<open>input[1 : len(input)-1]\<close> is out of bounds and the call
  panics. With two or more, the bytes between the first and the last are decoded: a
  decoding error is returned and the receiver stays as it was; decoded bytes are stored
  with \<open>SetBytes\<close> and no error is returned.
\<close>

lemma UnmarshalJSON_short: "length input < 2 \<Longrightarrow> UnmarshalJSON addr input = Inl SliceBoundsOutOfRange"
  by (simp add: UnmarshalJSON_def go_slice_def)

lemma go_slice_content:
  "2 \<le> length input \<Longrightarrow>
   go_slice input 1 (int (length input) - 1) = Inr (take (length input - 2) (drop 1 input))"
  by (simp add: go_slice_def nat_diff_distrib' numeral_2_eq_2)

lemma UnmarshalJSON_decode_error:
  "2 \<le> length input \<Longrightarrow> HexDecode (take (length input - 2) (drop 1 input)) = (bs, Some err) \<Longrightarrow>
   UnmarshalJSON addr input = Inr (addr, Some err)"
  by (simp add: UnmarshalJSON_def go_slice_content)

lemma UnmarshalJSON_decoded:
  "2 \<le> length input \<Longrightarrow> HexDecode (take (length input - 2) (drop 1 input)) = (bs, None) \<Longrightarrow>
   \<exists>addr'. SetBytes addr bs = Inr addr' \<and> UnmarshalJSON addr input = Inr (addr', None)"
  by (simp add: UnmarshalJSON_def go_slice_content SetBytes_result)

text \<open>
  Claim C10 says of every input that \<open>UnmarshalJSON\<close> returns an error or succeeds. On
  the one-byte input \<^verbatim>\<open>1\<close> (a JSON number) and on the empty input it does neither:
  the call panics.
\<close>

theorem UnmarshalJSON_panics_on_short_input:
  "UnmarshalJSON zero_address ''1'' = Inl SliceBoundsOutOfRange \<and>
   UnmarshalJSON zero_address [] = Inl SliceBoundsOutOfRange"
  by (simp add: UnmarshalJSON_short)

subsection \<open>ValidateBasic\<close>

lemma IsEmpty_iff_zero_bytes: "IsEmpty addr \<longleftrightarrow> addr_bytes addr = replicate 20 0"
  using all_zero_replicate [of "addr_bytes addr"]
  by (simp add: IsEmpty_iff_set length_addr_bytes)

lemma example_address_not_zero: "replicate 19 0 @ [1] \<noteq> replicate 20 (0 :: byte)"
  by (simp add: eval_nat_numeral)

text \<open>
  Claim C4. For every BindMsg, \<open>ValidateBasic\<close> returns an error if and only if the
  length of the sender address differs from the account-address length of the chain, or
  the symbol is empty, or the amount is at most 0, or the contract address is the
  all-zero address, or the contract decimals are below 0, or the expire time is at
  most 0; otherwise it returns no error.
\<close>

theorem BindMsg_ValidateBasic_rejects_iff:
  "BindMsg_ValidateBasic AddrLen msg \<noteq> None \<longleftrightarrow>
     (int (length (BindMsg.From msg)) \<noteq> AddrLen \<or>
      BindMsg.Symbol msg = [] \<or>
      sint (BindMsg.Amount msg) \<le> 0 \<or>
      addr_bytes (BindMsg.ContractAddress msg) = replicate 20 0 \<or>
      sint (BindMsg.ContractDecimals msg) < 0 \<or>
      sint (BindMsg.ExpireTime msg) \<le> 0)"
  by (simp add: BindMsg_ValidateBasic_def IsEmpty_iff_zero_bytes)

theorem BindMsg_ValidateBasic_rejects_iff_witness:
  "BindMsg_ValidateBasic 20
     \<lparr>BindMsg.From = replicate 20 7, BindMsg.Symbol = ''BNB'', BindMsg.Amount = 100000000,
      BindMsg.ContractAddress = mk_addr (replicate 19 0 @ [1]), BindMsg.ContractDecimals = 8,
      BindMsg.ExpireTime = 1600000000\<rparr> = None \<and>
   BindMsg_ValidateBasic 20
     \<lparr>BindMsg.From = replicate 20 7, BindMsg.Symbol = ''BNB'', BindMsg.Amount = 0,
      BindMsg.ContractAddress = mk_addr (replicate 19 0 @ [1]), BindMsg.ContractDecimals = 8,
      BindMsg.ExpireTime = 1600000000\<rparr> \<noteq> None \<and>
   BindMsg_ValidateBasic 20
     \<lparr>BindMsg.From = replicate 20 7, BindMsg.Symbol = ''BNB'', BindMsg.Amount = - 1,
      BindMsg.ContractAddress = mk_addr (replicate 19 0 @ [1]), BindMsg.ContractDecimals = 8,
      BindMsg.ExpireTime = 1600000000\<rparr> \<noteq> None \<and>
   BindMsg_ValidateBasic 20
     \<lparr>BindMsg.From = replicate 20 7, BindMsg.Symbol = [], BindMsg.Amount = 100000000,
      BindMsg.ContractAddress = mk_addr (replicate 19 0 @ [1]), BindMsg.ContractDecimals = 8,
      BindMsg.ExpireTime = 1600000000\<rparr> \<noteq> None \<and>
   BindMsg_ValidateBasic 20
     \<lparr>BindMsg.From = replicate 20 7, BindMsg.Symbol = ''BNB'', BindMsg.Amount = 100000000,
      BindMsg.ContractAddress = mk_addr (replicate 19 0 @ [1]), BindMsg.ContractDecimals = 8,
      BindMsg.ExpireTime = 0\<rparr> \<noteq> None \<and>
   BindMsg_ValidateBasic 20
     \<lparr>BindMsg.From = replicate 20 7, BindMsg.Symbol = ''BNB'', BindMsg.Amount = 100000000,
      BindMsg.ContractAddress = zero_address, BindMsg.ContractDecimals = 8,
      BindMsg.ExpireTime = 1600000000\<rparr> \<noteq> None"
  using
    BindMsg_ValidateBasic_rejects_iff [of 20
      "\<lparr>BindMsg.From = replicate 20 7, BindMsg.Symbol = ''BNB'', BindMsg.Amount = 100000000,
        BindMsg.ContractAddress = mk_addr (replicate 19 0 @ [1]), BindMsg.ContractDecimals = 8,
        BindMsg.ExpireTime = 1600000000\<rparr>"]
    BindMsg_ValidateBasic_rejects_iff [of 20
      "\<lparr>BindMsg.From = replicate 20 7, BindMsg.Symbol = ''BNB'', BindMsg.Amount = 0,
        BindMsg.ContractAddress = mk_addr (replicate 19 0 @ [1]), BindMsg.ContractDecimals = 8,
        BindMsg.ExpireTime = 1600000000\<rparr>"]
    BindMsg_ValidateBasic_rejects_iff [of 20
      "\<lparr>BindMsg.From = replicate 20 7, BindMsg.Symbol = ''BNB'', BindMsg.Amount = - 1,
        BindMsg.ContractAddress = mk_addr (replicate 19 0 @ [1]), BindMsg.ContractDecimals = 8,
        BindMsg.ExpireTime = 1600000000\<rparr>"]
    BindMsg_ValidateBasic_rejects_iff [of 20
      "\<lparr>BindMsg.From = replicate 20 7, BindMsg.Symbol = [], BindMsg.Amount = 100000000,
        BindMsg.ContractAddress = mk_addr (replicate 19 0 @ [1]), BindMsg.ContractDecimals = 8,
        BindMsg.ExpireTime = 1600000000\<rparr>"]
    BindMsg_ValidateBasic_rejects_iff [of 20
      "\<lparr>BindMsg.From = replicate 20 7, BindMsg.Symbol = ''BNB'', BindMsg.Amount = 100000000,
        BindMsg.ContractAddress = mk_addr (replicate 19 0 @ [1]), BindMsg.ContractDecimals = 8,
        BindMsg.ExpireTime = 0\<rparr>"]
    BindMsg_ValidateBasic_rejects_iff [of 20
      "\<lparr>BindMsg.From = replicate 20 7, BindMsg.Symbol = ''BNB'', BindMsg.Amount = 100000000,
        BindMsg.ContractAddress = zero_address, BindMsg.ContractDecimals = 8,
        BindMsg.ExpireTime = 1600000000\<rparr>"]
  by (simp add: addr_bytes_mk_addr addr_bytes_zero_address example_address_not_zero)

text \<open>
  Claim C5. For every TransferOutMsg, \<open>ValidateBasic\<close> returns an error if and only if
  the length of the sender address differs from the account-address length of the
  chain, or the destination address is the all-zero address, or the coin amount is not
  strictly positive, or the expire time is at most 0; otherwise it returns no error.
\<close>

theorem TransferOutMsg_ValidateBasic_rejects_iff:
  "TransferOutMsg_ValidateBasic AddrLen msg \<noteq> None \<longleftrightarrow>
     (int (length (TransferOutMsg.From msg)) \<noteq> AddrLen \<or>
      addr_bytes (TransferOutMsg.To msg) = replicate 20 0 \<or>
      \<not> 0 < sint (Coin.Amount (TransferOutMsg.Amount msg)) \<or>
      sint (TransferOutMsg.ExpireTime msg) \<le> 0)"
  by (simp add: TransferOutMsg_ValidateBasic_def IsEmpty_iff_zero_bytes IsPositive_def)

theorem TransferOutMsg_ValidateBasic_rejects_iff_witness:
  "TransferOutMsg_ValidateBasic 20
     \<lparr>TransferOutMsg.From = replicate 20 7, To = mk_addr (replicate 19 0 @ [1]),
      TransferOutMsg.Amount = \<lparr>Denom = ''BNB'', Coin.Amount = 100\<rparr>,
      TransferOutMsg.ExpireTime = 1600000000\<rparr> = None \<and>
   TransferOutMsg_ValidateBasic 20
     \<lparr>TransferOutMsg.From = replicate 20 7, To = zero_address,
      TransferOutMsg.Amount = \<lparr>Denom = ''BNB'', Coin.Amount = 100\<rparr>,
      TransferOutMsg.ExpireTime = 1600000000\<rparr> \<noteq> None \<and>
   TransferOutMsg_ValidateBasic 20
     \<lparr>TransferOutMsg.From = replicate 20 7, To = mk_addr (replicate 19 0 @ [1]),
      TransferOutMsg.Amount = \<lparr>Denom = ''BNB'', Coin.Amount = 0\<rparr>,
      TransferOutMsg.ExpireTime = 1600000000\<rparr> \<noteq> None"
  using
    TransferOutMsg_ValidateBasic_rejects_iff [of 20
      "\<lparr>TransferOutMsg.From = replicate 20 7, To = mk_addr (replicate 19 0 @ [1]),
        TransferOutMsg.Amount = \<lparr>Denom = ''BNB'', Coin.Amount = 100\<rparr>,
        TransferOutMsg.ExpireTime = 1600000000\<rparr>"]
    TransferOutMsg_ValidateBasic_rejects_iff [of 20
      "\<lparr>TransferOutMsg.From = replicate 20 7, To = zero_address,
        TransferOutMsg.Amount = \<lparr>Denom = ''BNB'', Coin.Amount = 100\<rparr>,
        TransferOutMsg.ExpireTime = 1600000000\<rparr>"]
    TransferOutMsg_ValidateBasic_rejects_iff [of 20
      "\<lparr>TransferOutMsg.From = replicate 20 7, To = mk_addr (replicate 19 0 @ [1]),
        TransferOutMsg.Amount = \<lparr>Denom = ''BNB'', Coin.Amount = 0\<rparr>,
        TransferOutMsg.ExpireTime = 1600000000\<rparr>"]
  by (simp add: addr_bytes_mk_addr addr_bytes_zero_address example_address_not_zero)

subsection \<open>TransferInClaim\<close>

text \<open>
  Claim C9, as the code has it. The refund addresses, the receiver addresses and the
  amounts of a TransferInClaim are three fields of their own, and the type does not tie
  their lengths together: for any three lengths there is a claim whose sequences have
  them. That the lengths agree is left to whoever builds the claim.
\<close>

theorem TransferInClaim_lengths_unconstrained:
  "\<exists>c :: TransferInClaim.
     length (RefundAddresses c) = i \<and> length (ReceiverAddresses c) = j \<and> length (Amounts c) = k"
proof -
  let ?c = "\<lparr>TransferInClaim.ContractAddress = zero_address,
             RefundAddresses = replicate i zero_address,
             ReceiverAddresses = replicate j [],
             Amounts = replicate k 0,
             TransferInClaim.Symbol = [],
             RelayFee = \<lparr>Denom = [], Coin.Amount = 0\<rparr>,
             TransferInClaim.ExpireTime = 0\<rparr>"
  have "length (RefundAddresses ?c) = i \<and> length (ReceiverAddresses ?c) = j \<and>
        length (Amounts ?c) = k" by simp
  then show ?thesis by blast
qed

text \<open>
  Claim C9 as stated holds of every TransferInClaim. This one has one refund address
  and no receiver address.
\<close>

theorem TransferInClaim_unequal_lengths:
  "length (RefundAddresses
      \<lparr>TransferInClaim.ContractAddress = zero_address,
       RefundAddresses = [zero_address],
       ReceiverAddresses = [],
       Amounts = [],
       TransferInClaim.Symbol = ''BNB'',
       RelayFee = \<lparr>Denom = ''BNB'', Coin.Amount = 1\<rparr>,
       TransferInClaim.ExpireTime = 1600000000\<rparr>)
   \<noteq> length (ReceiverAddresses
      \<lparr>TransferInClaim.ContractAddress = zero_address,
       RefundAddresses = [zero_address],
       ReceiverAddresses = [],
       Amounts = [],
       TransferInClaim.Symbol = ''BNB'',
       RelayFee = \<lparr>Denom = ''BNB'', Coin.Amount = 1\<rparr>,
       TransferInClaim.ExpireTime = 1600000000\<rparr>)"
  by simp

subsection \<open>GetSignBytes\<close>

lemma FormatInt_examples:
  "FormatInt 100000000 = ''100000000''" "FormatInt (- 1) = ''-1''" "FormatInt 0 = ''0''"
  by (simp_all add: FormatInt_def FormatUint.simps)

text \<open>
  What a call of \<open>GetSignBytes\<close> returns, written with the results of the two encoders
  that take the state: the state enters through them and nowhere else.
\<close>

lemma BindMsg_GetSignBytes_result:
  "fst (BindMsg_GetSignBytes env msg w) =
     (case fst (marshal_AccAddress env (BindMsg.From msg) w) of
        (_, Some err) \<Rightarrow> Inl (PanicError err)
      | (from, None) \<Rightarrow>
          (case marshaler_json env (SmartChainAddress_MarshalJSON (BindMsg.ContractAddress msg)) of
             (_, Some err) \<Rightarrow> Inl (PanicError err)
           | (contract_address, None) \<Rightarrow>
               Inr (''{'' @ json_key ''from'' @ from
                 @ '','' @ json_key ''symbol'' @ encode_string env (BindMsg.Symbol msg)
                 @ '','' @ json_key ''amount'' @ FormatInt (sint (BindMsg.Amount msg))
                 @ '','' @ json_key ''contract_address'' @ contract_address
                 @ '','' @ json_key ''contract_decimals''
                         @ FormatInt (sint (BindMsg.ContractDecimals msg))
                 @ '','' @ json_key ''expire_time'' @ FormatInt (sint (BindMsg.ExpireTime msg))
                 @ ''}'')))"
  by (simp add: BindMsg_GetSignBytes_def json_Marshal_BindMsg_def
      split: prod.splits option.splits)


text \<open>
  The sign bytes of one message, with encoders that put a string between double quotes,
  render an account address in hexadecimal and count their calls in the state.
\<close>

lemma BindMsg_GetSignBytes_example:
  "fst (BindMsg_GetSignBytes
     \<lparr>encode_string = (\<lambda>s. CHR 0x22 # s @ [CHR 0x22]),
      compact = (\<lambda>b. (b, None)),
      marshal_AccAddress =
        (\<lambda>a (w :: nat). ((CHR 0x22 # HexAddress a @ [CHR 0x22], None), Suc w)),
      marshal_Coin = (\<lambda>c w. ((FormatInt (sint (Coin.Amount c)), None), Suc w))\<rparr>
     (NewBindMsg [1, 2] ''BNB'' 100 (mk_addr (replicate 19 0 @ [1])) 8 (- 5)) 0) =
   Inr (concat
     [''{'', [CHR 0x22], ''from'', [CHR 0x22], '':'', [CHR 0x22], ''0102'', [CHR 0x22],
      '','', [CHR 0x22], ''symbol'', [CHR 0x22], '':'', [CHR 0x22], ''BNB'', [CHR 0x22],
      '','', [CHR 0x22], ''amount'', [CHR 0x22], '':'', ''100'',
      '','', [CHR 0x22], ''contract_address'', [CHR 0x22], '':'',
           [CHR 0x22], ''0000000000000000000000000000000000000001'', [CHR 0x22],
      '','', [CHR 0x22], ''contract_decimals'', [CHR 0x22], '':'', ''8'',
      '','', [CHR 0x22], ''expire_time'', [CHR 0x22], '':'', ''-5'',
      ''}''])"
proof -
  have bytes: "replicate 19 0 @ [1 :: byte] = [0,0,0,0,0,0,0,0,0,0,0,0,0,0,0,0,0,0,0,1]"
    by (simp add: eval_nat_numeral)
  have hex: "HexAddress [0,0,0,0,0,0,0,0,0,0,0,0,0,0,0,0,0,0,0,1]
      = ''0000000000000000000000000000000000000001''"
    by (simp add: HexAddress_def hex_byte_def hex_digits_def)
  have sender_hex: "HexAddress [1, 2] = ''0102''"
    by (simp add: HexAddress_def hex_byte_def hex_digits_def)
  have ints: "FormatInt 100 = ''100''" "FormatInt 8 = ''8''" "FormatInt (- 5) = ''-5''"
    by (simp_all add: FormatInt_def FormatUint.simps)
  have rep: "addr_bytes (mk_addr [0,0,0,0,0,0,0,0,0,0,0,0,0,0,0,0,0,0,0,1])
      = [0,0,0,0,0,0,0,0,0,0,0,0,0,0,0,0,0,0,0,1]"
    by (simp add: addr_bytes_mk_addr)
  show ?thesis
    by (simp add: BindMsg_GetSignBytes_result marshaler_json_def
      SmartChainAddress_MarshalJSON_def SmartChainAddress_String_def json_key_def
      NewBindMsg_def BindMsg_zero_def rep bytes hex sender_hex ints)
qed











text \<open>
  The two hypotheses carry the part of the claim that the sources do not decide. With an
  account-address encoder whose text follows the state, the sign bytes of one and the
  same message follow the state as well.
\<close>

lemma GetSignBytes_follows_encoder_state:
  "fst (BindMsg_GetSignBytes
     \<lparr>encode_string = (\<lambda>s. CHR 0x22 # s @ [CHR 0x22]),
      compact = (\<lambda>b. (b, None)),
      marshal_AccAddress = (\<lambda>a (w :: bool). ((if w then ''1'' else ''0'', None), w)),
      marshal_Coin = (\<lambda>c w. ((FormatInt (sint (Coin.Amount c)), None), w))\<rparr>
     BindMsg_zero True) \<noteq>
   fst (BindMsg_GetSignBytes
     \<lparr>encode_string = (\<lambda>s. CHR 0x22 # s @ [CHR 0x22]),
      compact = (\<lambda>b. (b, None)),
      marshal_AccAddress = (\<lambda>a (w :: bool). ((if w then ''1'' else ''0'', None), w)),
      marshal_Coin = (\<lambda>c w. ((FormatInt (sint (Coin.Amount c)), None), w))\<rparr>
     BindMsg_zero False)"
  by (simp add: BindMsg_GetSignBytes_result marshaler_json_def SmartChainAddress_MarshalJSON_def
      json_key_def)

end
